theory Spec2Isabelle
  imports Main "HOL-Library.Word"
begin

section \<open>Bytes, exceptions and Python slices\<close>

text \<open>
  The server in \<^verbatim>\<open>smpp-server.py\<close> is Python. Its integers are unbounded
  (\<^typ>\<open>int\<close>), a \<^verbatim>\<open>bytes\<close> object is a list of 8-bit words, and every
  \<^verbatim>\<open>raise\<close> is a value of the type \<open>error\<close>.
\<close>

type_synonym byte = "8 word"

datatype error =
    ValueError string   \<comment> \<open>\<^verbatim>\<open>raise ValueError("PDU too short")\<close>\<close>
  | StructError         \<comment> \<open>\<^verbatim>\<open>struct.error\<close>: an argument out of range, a buffer of the wrong size\<close>
  | KeyError            \<comment> \<open>a dictionary indexed with a missing key\<close>

text \<open>
  \<^verbatim>\<open>xs[i:j]\<close> on a sequence of length \<open>n\<close>: a negative index counts from the
  end, and both indices are clamped to \<open>0..n\<close>; the slice is empty when it starts at or
  after its end.
\<close>

definition slice_index :: "nat \<Rightarrow> int \<Rightarrow> nat" where
  "slice_index n i = (if i < 0 then nat (max 0 (int n + i)) else min n (nat i))"

definition slice :: "'a list \<Rightarrow> int \<Rightarrow> int \<Rightarrow> 'a list" where
  "slice xs i j = drop (slice_index (length xs) i) (take (slice_index (length xs) j) xs)"

text \<open>A bytes literal such as \<^verbatim>\<open>b'smppserver\x00'\<close>: the ASCII text, then the zero byte.\<close>

definition bytes_of :: "string \<Rightarrow> byte list" where
  "bytes_of cs = map of_char cs"

section \<open>The \<^verbatim>\<open>struct\<close> format \<^verbatim>\<open>!IIII\<close>\<close>

text \<open>
  \<^verbatim>\<open>struct.pack('!I', x)\<close> writes \<open>x\<close> as four bytes, most significant first, and
  raises \<^verbatim>\<open>struct.error\<close> unless \<open>0 \<le> x \<le> 4294967295\<close>.
  \<^verbatim>\<open>struct.unpack('!IIII', bs)\<close> raises unless \<open>bs\<close> has exactly 16 bytes.
\<close>

definition pack_I :: "int \<Rightarrow> error + byte list" where
  "pack_I x =
     (if 0 \<le> x \<and> x \<le> 4294967295
      then Inr [word_of_int (x div 16777216), word_of_int (x div 65536),
                word_of_int (x div 256), word_of_int x]
      else Inl StructError)"

definition pack_IIII :: "int \<Rightarrow> int \<Rightarrow> int \<Rightarrow> int \<Rightarrow> error + byte list" where
  "pack_IIII a b c d =
     (case pack_I a of Inl e \<Rightarrow> Inl e | Inr a' \<Rightarrow>
     (case pack_I b of Inl e \<Rightarrow> Inl e | Inr b' \<Rightarrow>
     (case pack_I c of Inl e \<Rightarrow> Inl e | Inr c' \<Rightarrow>
     (case pack_I d of Inl e \<Rightarrow> Inl e | Inr d' \<Rightarrow> Inr (a' @ b' @ c' @ d')))))"

definition unpack_I_at :: "byte list \<Rightarrow> nat \<Rightarrow> int" where
  "unpack_I_at bs i =
     uint (bs ! i) * 16777216 + uint (bs ! (i + 1)) * 65536 +
     uint (bs ! (i + 2)) * 256 + uint (bs ! (i + 3))"

definition unpack_IIII :: "byte list \<Rightarrow> error + int \<times> int \<times> int \<times> int" where
  "unpack_IIII bs =
     (if length bs \<noteq> 16 then Inl StructError
      else Inr (unpack_I_at bs 0, unpack_I_at bs 4, unpack_I_at bs 8, unpack_I_at bs 12))"

section \<open>The command table and the PDU\<close>

definition SMPP_COMMANDS :: "(string \<times> int) list" where
  "SMPP_COMMANDS =
     [(''bind_receiver'', 0x00000001),
      (''bind_transmitter'', 0x00000002),
      (''bind_transceiver'', 0x00000009),
      (''submit_sm'', 0x00000004),
      (''deliver_sm'', 0x00000005),
      (''unbind'', 0x00000006),
      (''generic_nack'', 0x80000000),
      (''bind_receiver_resp'', 0x80000001),
      (''bind_transmitter_resp'', 0x80000002),
      (''bind_transceiver_resp'', 0x80000009),
      (''submit_sm_resp'', 0x80000004),
      (''deliver_sm_resp'', 0x80000005),
      (''unbind_resp'', 0x80000006)]"

text \<open>
  \<^verbatim>\<open>d[k]\<close> on a dictionary: the value stored under \<open>k\<close>, or \<^verbatim>\<open>KeyError\<close>.
\<close>

definition getitem :: "('k \<times> 'v) list \<Rightarrow> 'k \<Rightarrow> error + 'v" where
  "getitem d k = (case map_of d k of None \<Rightarrow> Inl KeyError | Some v \<Rightarrow> Inr v)"

text \<open>
  The source reads the table only under literal keys, \<^verbatim>\<open>SMPP_COMMANDS['unbind']\<close>
  and so on. Each such expression is a constant here; \<open>SMPP_COMMANDS_literals\<close> below
  shows that the table holds exactly that value under that key, so none of these
  lookups raises.
\<close>

definition bind_receiver :: int where "bind_receiver = 0x00000001"
definition bind_transmitter :: int where "bind_transmitter = 0x00000002"
definition bind_transceiver :: int where "bind_transceiver = 0x00000009"
definition submit_sm :: int where "submit_sm = 0x00000004"
definition deliver_sm :: int where "deliver_sm = 0x00000005"
definition unbind :: int where "unbind = 0x00000006"
definition generic_nack :: int where "generic_nack = 0x80000000"
definition bind_receiver_resp :: int where "bind_receiver_resp = 0x80000001"
definition bind_transmitter_resp :: int where "bind_transmitter_resp = 0x80000002"
definition bind_transceiver_resp :: int where "bind_transceiver_resp = 0x80000009"
definition submit_sm_resp :: int where "submit_sm_resp = 0x80000004"
definition deliver_sm_resp :: int where "deliver_sm_resp = 0x80000005"
definition unbind_resp :: int where "unbind_resp = 0x80000006"

record pdu =
  command_id :: int
  command_status :: int
  sequence_number :: int
  body :: "byte list"

text \<open>\<^verbatim>\<open>SMPPPDU.encode\<close>: the header of four big-endian words, then the body.\<close>

definition encode :: "pdu \<Rightarrow> error + byte list" where
  "encode p =
     (let len = 16 + int (length (body p)) in
      case pack_IIII len (command_id p) (command_status p) (sequence_number p) of
        Inl e \<Rightarrow> Inl e
      | Inr header \<Rightarrow> Inr (header @ body p))"

text \<open>
  \<^verbatim>\<open>SMPPServerProtocol.parse_pdu\<close>: the only check is on the number of bytes
  received; the length field is used as the end of the slice that becomes the body,
  and nowhere else.
\<close>

definition parse_pdu :: "byte list \<Rightarrow> error + pdu" where
  "parse_pdu data =
     (if length data < 16 then Inl (ValueError ''PDU too short'')
      else case unpack_IIII (slice data 0 16) of
             Inl e \<Rightarrow> Inl e
           | Inr (len, cid, cstatus, seq) \<Rightarrow>
               Inr \<lparr>command_id = cid, command_status = cstatus,
                    sequence_number = seq, body = slice data 16 len\<rparr>)"

section \<open>The protocol object of one connection\<close>

text \<open>
  The transport belongs to asyncio; the server only calls \<^verbatim>\<open>transport.write\<close>
  and \<^verbatim>\<open>transport.close\<close> on it. The model keeps these calls, each write with
  its argument, in the order in which they are made.
\<close>

datatype transport_call = Write "byte list" | Close

text \<open>
  \<^verbatim>\<open>SMPPServerProtocol\<close> after \<^verbatim>\<open>connection_made\<close>: the attributes set by
  \<^verbatim>\<open>__init__\<close>, and the calls made on the transport so far. (The attribute
  \<^verbatim>\<open>self.sequence_number\<close> is \<open>self_sequence_number\<close>, the name
  \<open>sequence_number\<close> being the PDU's field.)
\<close>

record protocol =
  bound :: bool
  system_id :: "string option"
  self_sequence_number :: int
  valid_credentials :: "(string \<times> string) list"
  transport :: "transport_call list"

definition connection_made :: protocol where
  "connection_made =
     \<lparr>bound = False, system_id = None, self_sequence_number = 1,
      valid_credentials = [(''smppuser'', ''password'')], transport = []\<rparr>"

text \<open>
  What has been written to the transport, in order, and whether the transport has been
  closed, read off the calls.
\<close>

fun writes :: "transport_call list \<Rightarrow> byte list list" where
  "writes [] = []"
| "writes (Write bs # calls) = bs # writes calls"
| "writes (Close # calls) = writes calls"

definition written :: "protocol \<Rightarrow> byte list list" where
  "written s = writes (transport s)"

definition closed :: "protocol \<Rightarrow> bool" where
  "closed s \<longleftrightarrow> Close \<in> set (transport s)"

definition transport_write :: "byte list \<Rightarrow> protocol \<Rightarrow> protocol" where
  "transport_write bs s = s\<lparr>transport := transport s @ [Write bs]\<rparr>"

definition transport_close :: "protocol \<Rightarrow> protocol" where
  "transport_close s = s\<lparr>transport := transport s @ [Close]\<rparr>"

text \<open>
  A handler runs on the protocol object and either returns or raises; what it did to
  the object before raising stays done. Its result is the exception, if any, and the
  object afterwards.
\<close>

type_synonym outcome = "error option \<times> protocol"

text \<open>
  The statement \<^verbatim>\<open>self.transport.write(response.encode())\<close>, which ends every
  handler: nothing is written when \<^verbatim>\<open>encode\<close> raises.
\<close>

definition write_encoded :: "pdu \<Rightarrow> protocol \<Rightarrow> outcome" where
  "write_encoded response s =
     (case encode response of
        Inl e \<Rightarrow> (Some e, s)
      | Inr bs \<Rightarrow> (None, transport_write bs s))"

definition authenticate :: "pdu \<Rightarrow> bool" where
  "authenticate p = True"

definition send_generic_nack :: "pdu \<Rightarrow> int \<Rightarrow> protocol \<Rightarrow> outcome" where
  "send_generic_nack p status s =
     write_encoded
       \<lparr>command_id = generic_nack, command_status = status,
        sequence_number = sequence_number p, body = []\<rparr> s"

definition handle_bind :: "pdu \<Rightarrow> bool \<Rightarrow> protocol \<Rightarrow> outcome" where
  "handle_bind p is_transceiver s =
     (if authenticate p then
        (let s1 = s\<lparr>bound := True\<rparr> in
         case getitem [(bind_receiver, bind_receiver_resp),
                       (bind_transmitter, bind_transmitter_resp),
                       (bind_transceiver, bind_transceiver_resp)] (command_id p) of
           Inl e \<Rightarrow> (Some e, s1)
         | Inr resp_command_id \<Rightarrow>
             write_encoded
               \<lparr>command_id = resp_command_id, command_status = 0,
                sequence_number = sequence_number p,
                body = bytes_of ''smppserver'' @ [0]\<rparr> s1)
      else
        write_encoded
          \<lparr>command_id = generic_nack, command_status = 0x0000000D,
           sequence_number = sequence_number p, body = []\<rparr> s)"

definition handle_submit_sm :: "pdu \<Rightarrow> protocol \<Rightarrow> outcome" where
  "handle_submit_sm p s =
     (if \<not> bound s then send_generic_nack p 0x0000000B s
      else
        write_encoded
          \<lparr>command_id = submit_sm_resp, command_status = 0,
           sequence_number = sequence_number p,
           body = bytes_of ''message_id_123'' @ [0]\<rparr> s)"

definition handle_unbind :: "pdu \<Rightarrow> protocol \<Rightarrow> outcome" where
  "handle_unbind p s =
     (let s1 = s\<lparr>bound := False\<rparr> in
      case write_encoded
             \<lparr>command_id = unbind_resp, command_status = 0,
              sequence_number = sequence_number p, body = []\<rparr> s1 of
        (Some e, s2) \<Rightarrow> (Some e, s2)
      | (None, s2) \<Rightarrow> (None, transport_close s2))"

text \<open>
  The body of the \<^verbatim>\<open>try\<close> in \<^verbatim>\<open>data_received\<close> after the PDU has been
  parsed: the chain of comparisons on the command id. (The call of
  \<^verbatim>\<open>logger.info\<close> before it formats a name and touches nothing of the object.)
\<close>

definition dispatch :: "pdu \<Rightarrow> protocol \<Rightarrow> outcome" where
  "dispatch p s =
     (if command_id p = bind_receiver then handle_bind p False s
      else if command_id p = bind_transmitter then handle_bind p False s
      else if command_id p = bind_transceiver then handle_bind p True s
      else if command_id p = submit_sm then handle_submit_sm p s
      else if command_id p = unbind then handle_unbind p s
      else send_generic_nack p 0x00000003 s)"

text \<open>
  \<^verbatim>\<open>data_received\<close>: any exception, of the parser or of a handler, is caught and
  the transport is closed.
\<close>

definition data_received :: "byte list \<Rightarrow> protocol \<Rightarrow> protocol" where
  "data_received data s =
     (case parse_pdu data of
        Inl e \<Rightarrow> transport_close s
      | Inr p \<Rightarrow>
          (case dispatch p s of
             (None, s') \<Rightarrow> s'
           | (Some e, s') \<Rightarrow> transport_close s'))"

text \<open>
  The event loop that owns the connection is asyncio's, not the server's. Its contract
  for \<^verbatim>\<open>transport.close()\<close> is that no more data will be received: it hands each
  chunk read from the socket to \<^verbatim>\<open>data_received\<close> until the transport has been
  closed, and none afterwards.
\<close>

fun receive_all :: "byte list list \<Rightarrow> protocol \<Rightarrow> protocol" where
  "receive_all [] s = s"
| "receive_all (data # rest) s =
     (if closed s then s else receive_all rest (data_received data s))"

text \<open>What one call of \<^verbatim>\<open>data_received\<close> wrote: the calls of \<^verbatim>\<open>transport.write\<close> it added.\<close>

definition responses :: "byte list \<Rightarrow> protocol \<Rightarrow> byte list list" where
  "responses data s = drop (length (written s)) (written (data_received data s))"

text \<open>A value that \<^verbatim>\<open>struct.pack\<close> accepts for the format \<^verbatim>\<open>I\<close>.\<close>

definition uint32 :: "int \<Rightarrow> bool" where
  "uint32 x \<longleftrightarrow> 0 \<le> x \<and> x \<le> 4294967295"

section \<open>The table under its literal keys\<close>

lemma SMPP_COMMANDS_literals:
  "map_of SMPP_COMMANDS ''bind_receiver'' = Some bind_receiver"
  "map_of SMPP_COMMANDS ''bind_transmitter'' = Some bind_transmitter"
  "map_of SMPP_COMMANDS ''bind_transceiver'' = Some bind_transceiver"
  "map_of SMPP_COMMANDS ''submit_sm'' = Some submit_sm"
  "map_of SMPP_COMMANDS ''deliver_sm'' = Some deliver_sm"
  "map_of SMPP_COMMANDS ''unbind'' = Some unbind"
  "map_of SMPP_COMMANDS ''generic_nack'' = Some generic_nack"
  "map_of SMPP_COMMANDS ''bind_receiver_resp'' = Some bind_receiver_resp"
  "map_of SMPP_COMMANDS ''bind_transmitter_resp'' = Some bind_transmitter_resp"
  "map_of SMPP_COMMANDS ''bind_transceiver_resp'' = Some bind_transceiver_resp"
  "map_of SMPP_COMMANDS ''submit_sm_resp'' = Some submit_sm_resp"
  "map_of SMPP_COMMANDS ''deliver_sm_resp'' = Some deliver_sm_resp"
  "map_of SMPP_COMMANDS ''unbind_resp'' = Some unbind_resp"
  by (simp_all add: SMPP_COMMANDS_def bind_receiver_def bind_transmitter_def
      bind_transceiver_def submit_sm_def deliver_sm_def unbind_def generic_nack_def
      bind_receiver_resp_def bind_transmitter_resp_def bind_transceiver_resp_def
      submit_sm_resp_def deliver_sm_resp_def unbind_resp_def)

section \<open>Big-endian words\<close>

lemma uint_byte_of_int: "uint (word_of_int k :: byte) = k mod 256"
  by (simp add: uint_word_of_int)

lemma uint_byte_range: "0 \<le> uint (b :: byte) \<and> uint b \<le> 255"
  using uint_lt2p [of b] by simp

lemma big_endian_digits:
  "(x::int) div 16777216 mod 256 * 16777216 + x div 65536 mod 256 * 65536 +
     x div 256 mod 256 * 256 + x mod 256 = x mod 4294967296"
proof -
  define y where "y = x div 256"
  define z where "z = y div 256"
  define w where "w = z div 256"
  have xy: "x = y * 256 + x mod 256"
    by (simp add: y_def)
  have yz: "y = z * 256 + y mod 256"
    by (simp add: z_def)
  have zw: "z = w * 256 + z mod 256"
    by (simp add: w_def)
  have d2: "x div 65536 = z"
    using zdiv_zmult2_eq [of 256 x 256] by (simp add: y_def z_def)
  have d3: "x div 16777216 = w"
    using zdiv_zmult2_eq [of 256 x 65536] d2 by (simp add: w_def)
  have d4: "x div 4294967296 = w div 256"
    using zdiv_zmult2_eq [of 256 x 16777216] d3 by simp
  have ww: "w = w div 256 * 256 + w mod 256"
    by simp
  have top: "x = x div 4294967296 * 4294967296 + x mod 4294967296"
    by simp
  show ?thesis
    unfolding d2 d3 y_def [symmetric] using xy yz zw ww top d4 by linarith
qed

lemma be32_range:
  fixes a b c d :: byte
  shows "0 \<le> uint a * 16777216 + uint b * 65536 + uint c * 256 + uint d \<and>
      uint a * 16777216 + uint b * 65536 + uint c * 256 + uint d \<le> 4294967295"
  using uint_byte_range [of a] uint_byte_range [of b]
    uint_byte_range [of c] uint_byte_range [of d]
  by linarith

lemma unpack_I_at_uint32: "uint32 (unpack_I_at bs i)"
  unfolding unpack_I_at_def uint32_def by (rule be32_range)

lemma pack_I_uint32: "uint32 x \<Longrightarrow>
  pack_I x = Inr [word_of_int (x div 16777216), word_of_int (x div 65536),
                word_of_int (x div 256), word_of_int x]"
  by (simp add: pack_I_def uint32_def)

lemma pack_I_not_uint32: "\<not> uint32 x \<Longrightarrow> pack_I x = Inl StructError"
  by (simp add: pack_I_def uint32_def)

lemma unpack_digits:
  assumes "uint32 x"
  shows "uint (word_of_int (x div 16777216) :: byte) * 16777216 +
         uint (word_of_int (x div 65536) :: byte) * 65536 +
         uint (word_of_int (x div 256) :: byte) * 256 + uint (word_of_int x :: byte) = x"
proof -
  have "x mod 4294967296 = x"
    using assms by (simp add: uint32_def)
  then show ?thesis
    unfolding uint_byte_of_int using big_endian_digits [of x] by (simp only:)
qed

section \<open>The codec\<close>

lemma slice_nonneg:
  "0 \<le> i \<Longrightarrow> 0 \<le> j \<Longrightarrow> slice xs i j = drop (nat i) (take (nat j) xs)"
proof -
  assume "0 \<le> i" "0 \<le> j"
  then have "slice xs i j = drop (min (length xs) (nat i)) (take (min (length xs) (nat j)) xs)"
    by (simp add: slice_def slice_index_def)
  also have "take (min (length xs) (nat j)) xs = take (nat j) xs"
    by (simp add: min_def)
  also have "drop (min (length xs) (nat i)) (take (nat j) xs) = drop (nat i) (take (nat j) xs)"
    by (cases "nat i \<le> length xs") (simp_all add: min_def)
  finally show ?thesis .
qed

lemma pack_IIII_uint32:
  assumes "uint32 a" "uint32 b" "uint32 c" "uint32 d"
  shows "\<exists>h. pack_IIII a b c d = Inr h \<and> length h = 16 \<and>
             unpack_IIII h = Inr (a, b, c, d)"
  using assms
  by (simp add: pack_IIII_def pack_I_uint32 unpack_IIII_def unpack_I_at_def unpack_digits)

lemma pack_IIII_raises:
  "\<not> uint32 a \<Longrightarrow> pack_IIII a b c d = Inl StructError"
  by (simp add: pack_IIII_def pack_I_not_uint32)

lemma parse_pdu_header_body:
  assumes "length h = 16" "unpack_IIII h = Inr (16 + int (length b), cid, cstatus, seq)"
  shows "parse_pdu (h @ b) =
           Inr \<lparr>command_id = cid, command_status = cstatus, sequence_number = seq, body = b\<rparr>"
proof -
  have "slice (h @ b) 0 16 = h"
    using assms(1) by (simp add: slice_nonneg)
  moreover have "slice (h @ b) 16 (16 + int (length b)) = b"
    using assms(1) by (simp add: slice_nonneg nat_add_distrib)
  ultimately show ?thesis
    using assms by (simp add: parse_pdu_def)
qed

lemma parse_pdu_encode:
  assumes "uint32 (command_id p)" "uint32 (command_status p)" "uint32 (sequence_number p)"
    and "uint32 (16 + int (length (body p)))"
  shows "\<exists>bs. encode p = Inr bs \<and> parse_pdu bs = Inr p"
proof -
  obtain h where h: "pack_IIII (16 + int (length (body p))) (command_id p) (command_status p)
        (sequence_number p) = Inr h" "length h = 16"
      "unpack_IIII h = Inr (16 + int (length (body p)), command_id p, command_status p,
        sequence_number p)"
    using pack_IIII_uint32 [OF assms(4) assms(1) assms(2) assms(3)] by blast
  have "encode p = Inr (h @ body p)"
    using h(1) by (simp add: encode_def)
  moreover have "parse_pdu (h @ body p) = Inr p"
    using parse_pdu_header_body [OF h(2) h(3)] by simp
  ultimately show ?thesis by blast
qed

lemma parse_pdu_fields:
  assumes "parse_pdu data = Inr p"
  shows "uint32 (command_id p) \<and> uint32 (command_status p) \<and> uint32 (sequence_number p)"
  using assms
  by (auto simp: parse_pdu_def unpack_IIII_def unpack_I_at_uint32 split: if_splits)

lemma parse_pdu_short: "length data < 16 \<Longrightarrow> parse_pdu data = Inl (ValueError ''PDU too short'')"
  by (simp add: parse_pdu_def)

lemma parse_pdu_long:
  assumes "16 \<le> length data"
  shows "parse_pdu data =
    Inr \<lparr>command_id = unpack_I_at data 4, command_status = unpack_I_at data 8,
         sequence_number = unpack_I_at data 12,
         body = drop 16 (take (nat (unpack_I_at data 0)) data)\<rparr>"
proof -
  have s: "slice data 0 16 = take 16 data"
    by (simp add: slice_nonneg)
  have l: "length (take 16 data) = 16"
    using assms by simp
  have u: "unpack_I_at (take 16 data) 0 = unpack_I_at data 0"
    "unpack_I_at (take 16 data) 4 = unpack_I_at data 4"
    "unpack_I_at (take 16 data) 8 = unpack_I_at data 8"
    "unpack_I_at (take 16 data) 12 = unpack_I_at data 12"
    by (simp_all add: unpack_I_at_def)
  have "0 \<le> unpack_I_at data 0"
    using unpack_I_at_uint32 [of data 0] by (simp add: uint32_def)
  then have b: "slice data 16 (unpack_I_at data 0) = drop 16 (take (nat (unpack_I_at data 0)) data)"
    by (simp add: slice_nonneg)
  show ?thesis
    using assms by (simp add: parse_pdu_def s unpack_IIII_def l u b)
qed

section \<open>What each handler answers\<close>

lemma uint32_commands:
  "uint32 generic_nack" "uint32 bind_receiver_resp" "uint32 bind_transmitter_resp"
  "uint32 bind_transceiver_resp" "uint32 submit_sm_resp" "uint32 unbind_resp"
  "uint32 0" "uint32 0x00000003" "uint32 0x0000000B" "uint32 0x0000000D"
  by (simp_all add: uint32_def generic_nack_def bind_receiver_resp_def
      bind_transmitter_resp_def bind_transceiver_resp_def submit_sm_resp_def unbind_resp_def)

lemma uint32_literal_bodies:
  "uint32 (16 + int (length ([] :: byte list)))"
  "uint32 (16 + int (length (bytes_of ''smppserver'' @ [0])))"
  "uint32 (16 + int (length (bytes_of ''message_id_123'' @ [0])))"
  by (simp_all add: uint32_def bytes_of_def)

lemma writes_append: "writes (calls @ later) = writes calls @ writes later"
  by (induction calls rule: writes.induct) simp_all

lemma written_write:
  "written (s\<lparr>transport := transport s @ [Write bs]\<rparr>) = written s @ [bs]"
  by (simp add: written_def writes_append)

lemma written_close:
  "written (s\<lparr>transport := transport s @ [Close]\<rparr>) = written s"
  by (simp add: written_def writes_append)

lemma written_bound: "written (s\<lparr>bound := b\<rparr>) = written s"
  by (simp add: written_def)

lemma write_encoded_response:
  assumes "uint32 cid" "uint32 cstatus" "uint32 seq" "uint32 (16 + int (length b))"
  shows "\<exists>bs. encode \<lparr>command_id = cid, command_status = cstatus,
                       sequence_number = seq, body = b\<rparr> = Inr bs \<and>
              parse_pdu bs = Inr \<lparr>command_id = cid, command_status = cstatus,
                       sequence_number = seq, body = b\<rparr> \<and>
              write_encoded \<lparr>command_id = cid, command_status = cstatus,
                       sequence_number = seq, body = b\<rparr> s =
                (None, s\<lparr>transport := transport s @ [Write bs]\<rparr>)"
proof -
  let ?r = "\<lparr>command_id = cid, command_status = cstatus, sequence_number = seq, body = b\<rparr>"
  obtain bs where bs: "encode ?r = Inr bs" "parse_pdu bs = Inr ?r"
    using parse_pdu_encode [of ?r] assms by auto
  then have "write_encoded ?r s = (None, s\<lparr>transport := transport s @ [Write bs]\<rparr>)"
    by (simp add: write_encoded_def transport_write_def)
  with bs show ?thesis by blast
qed

lemma send_generic_nack_response:
  assumes "uint32 (sequence_number p)" "uint32 status"
  shows "\<exists>bs. encode \<lparr>command_id = generic_nack, command_status = status,
                       sequence_number = sequence_number p, body = []\<rparr> = Inr bs \<and>
              parse_pdu bs = Inr \<lparr>command_id = generic_nack, command_status = status,
                       sequence_number = sequence_number p, body = []\<rparr> \<and>
              send_generic_nack p status s = (None, s\<lparr>transport := transport s @ [Write bs]\<rparr>)"
  unfolding send_generic_nack_def
  using write_encoded_response [OF uint32_commands(1) assms(2) assms(1) uint32_literal_bodies(1)]
  by simp

lemma resp_command_id:
  "getitem [(bind_receiver, bind_receiver_resp), (bind_transmitter, bind_transmitter_resp),
            (bind_transceiver, bind_transceiver_resp)] c =
     (if c = bind_receiver then Inr bind_receiver_resp
      else if c = bind_transmitter then Inr bind_transmitter_resp
      else if c = bind_transceiver then Inr bind_transceiver_resp
      else Inl KeyError)"
  by (simp add: getitem_def)

lemma handle_bind_response:
  assumes "uint32 (sequence_number p)"
    and "getitem [(bind_receiver, bind_receiver_resp), (bind_transmitter, bind_transmitter_resp),
            (bind_transceiver, bind_transceiver_resp)] (command_id p) = Inr rid"
  shows "\<exists>bs. encode \<lparr>command_id = rid, command_status = 0,
                       sequence_number = sequence_number p,
                       body = bytes_of ''smppserver'' @ [0]\<rparr> = Inr bs \<and>
              parse_pdu bs = Inr \<lparr>command_id = rid, command_status = 0,
                       sequence_number = sequence_number p,
                       body = bytes_of ''smppserver'' @ [0]\<rparr> \<and>
              handle_bind p t s = (None, s\<lparr>bound := True, transport := transport s @ [Write bs]\<rparr>)"
proof -
  have "uint32 rid"
    using assms(2) uint32_commands by (auto simp: resp_command_id split: if_splits)
  from write_encoded_response [OF this uint32_commands(7) assms(1) uint32_literal_bodies(2),
      of "s\<lparr>bound := True\<rparr>"]
  show ?thesis
    using assms(2) by (simp add: handle_bind_def authenticate_def)
qed

lemma handle_submit_sm_response:
  assumes "uint32 (sequence_number p)" "bound s"
  shows "\<exists>bs. encode \<lparr>command_id = submit_sm_resp, command_status = 0,
                       sequence_number = sequence_number p,
                       body = bytes_of ''message_id_123'' @ [0]\<rparr> = Inr bs \<and>
              parse_pdu bs = Inr \<lparr>command_id = submit_sm_resp, command_status = 0,
                       sequence_number = sequence_number p,
                       body = bytes_of ''message_id_123'' @ [0]\<rparr> \<and>
              handle_submit_sm p s = (None, s\<lparr>transport := transport s @ [Write bs]\<rparr>)"
  using write_encoded_response [OF uint32_commands(5) uint32_commands(7) assms(1)
      uint32_literal_bodies(3), of s] assms(2)
  by (simp add: handle_submit_sm_def)

lemma handle_unbind_response:
  assumes "uint32 (sequence_number p)"
  shows "\<exists>bs. encode \<lparr>command_id = unbind_resp, command_status = 0,
                       sequence_number = sequence_number p, body = []\<rparr> = Inr bs \<and>
              parse_pdu bs = Inr \<lparr>command_id = unbind_resp, command_status = 0,
                       sequence_number = sequence_number p, body = []\<rparr> \<and>
              handle_unbind p s =
                (None, s\<lparr>bound := False, transport := transport s @ [Write bs, Close]\<rparr>)"
proof -
  from write_encoded_response [OF uint32_commands(6) uint32_commands(7) assms
      uint32_literal_bodies(1), of "s\<lparr>bound := False\<rparr>"]
  show ?thesis
    by (auto simp: handle_unbind_def transport_close_def)
qed

lemmas command_defs =
  bind_receiver_def bind_transmitter_def bind_transceiver_def submit_sm_def deliver_sm_def
  unbind_def generic_nack_def bind_receiver_resp_def bind_transmitter_resp_def
  bind_transceiver_resp_def submit_sm_resp_def deliver_sm_resp_def unbind_resp_def

lemma dispatch_bind:
  assumes "command_id p \<in> {bind_receiver, bind_transmitter, bind_transceiver}"
  shows "dispatch p s = handle_bind p (command_id p = bind_transceiver) s"
  using assms by (auto simp: dispatch_def command_defs)

lemma dispatch_submit_sm:
  assumes "command_id p = submit_sm"
  shows "dispatch p s = handle_submit_sm p s"
  using assms by (simp add: dispatch_def command_defs)

lemma dispatch_unbind:
  assumes "command_id p = unbind"
  shows "dispatch p s = handle_unbind p s"
  using assms by (simp add: dispatch_def command_defs)

lemma dispatch_other:
  assumes "command_id p \<notin> {bind_receiver, bind_transmitter, bind_transceiver, submit_sm, unbind}"
  shows "dispatch p s = send_generic_nack p 0x00000003 s"
  using assms by (simp add: dispatch_def)

lemma resp_command_id_bind:
  assumes "command_id p \<in> {bind_receiver, bind_transmitter, bind_transceiver}"
  shows "getitem [(bind_receiver, bind_receiver_resp), (bind_transmitter, bind_transmitter_resp),
            (bind_transceiver, bind_transceiver_resp)] (command_id p) =
         Inr (if command_id p = bind_receiver then bind_receiver_resp
              else if command_id p = bind_transmitter then bind_transmitter_resp
              else bind_transceiver_resp)"
  using assms by (auto simp: resp_command_id)

lemma dispatch_one_response:
  assumes "uint32 (sequence_number p)"
  shows "\<exists>r bs s1. encode r = Inr bs \<and> parse_pdu bs = Inr r \<and>
           sequence_number r = sequence_number p \<and>
           dispatch p s = (None, s1) \<and> written s1 = written s @ [bs]"
proof -
  consider (bind) "command_id p \<in> {bind_receiver, bind_transmitter, bind_transceiver}"
    | (submit_unbound) "command_id p = submit_sm" "\<not> bound s"
    | (submit_bound) "command_id p = submit_sm" "bound s"
    | (unbind) "command_id p = unbind"
    | (other) "command_id p \<notin> {bind_receiver, bind_transmitter, bind_transceiver, submit_sm, unbind}"
    by blast
  then show ?thesis
  proof cases
    case bind
    note resp_command_id_bind [OF bind]
    from handle_bind_response [OF assms this, of "command_id p = bind_transceiver" s]
    show ?thesis
      unfolding dispatch_bind [OF bind] by (force simp: written_def writes_append)
  next
    case submit_unbound
    from send_generic_nack_response [OF assms uint32_commands(9), of s]
    show ?thesis
      unfolding dispatch_submit_sm [OF submit_unbound(1)] handle_submit_sm_def
      using submit_unbound(2) by (force simp: written_def writes_append)
  next
    case submit_bound
    from handle_submit_sm_response [OF assms submit_bound(2)]
    show ?thesis
      unfolding dispatch_submit_sm [OF submit_bound(1)] by (force simp: written_def writes_append)
  next
    case unbind
    from handle_unbind_response [OF assms, of s]
    show ?thesis
      unfolding dispatch_unbind [OF unbind] by (force simp: written_def writes_append)
  next
    case other
    from send_generic_nack_response [OF assms uint32_commands(8), of s]
    show ?thesis
      unfolding dispatch_other [OF other] by (force simp: written_def writes_append)
  qed
qed

lemma data_received_one_response:
  assumes "parse_pdu data = Inr p"
  shows "\<exists>r bs. encode r = Inr bs \<and> parse_pdu bs = Inr r \<and>
           sequence_number r = sequence_number p \<and>
           written (data_received data s) = written s @ [bs]"
proof -
  have "uint32 (sequence_number p)"
    using parse_pdu_fields [OF assms] by simp
  from dispatch_one_response [OF this, of s]
  show ?thesis
    using assms by (force simp: data_received_def)
qed

lemma data_received_short:
  assumes "length data < 16"
  shows "data_received data s = s\<lparr>transport := transport s @ [Close]\<rparr>"
  using assms by (simp add: data_received_def parse_pdu_short transport_close_def)

section \<open>Evaluation on concrete frames\<close>

lemmas codec_defs =
  parse_pdu_def unpack_IIII_def unpack_I_at_def slice_def slice_index_def
  encode_def pack_IIII_def pack_I_def

lemmas handler_defs =
  data_received_def dispatch_def handle_bind_def handle_submit_sm_def handle_unbind_def
  send_generic_nack_def write_encoded_def transport_write_def transport_close_def
  authenticate_def getitem_def bytes_of_def written_def closed_def

lemma encode_raises:
  assumes "\<not> length (body p) < 4294967280"
  shows "encode p = Inl StructError"
proof -
  have "\<not> uint32 (16 + int (length (body p)))"
    using assms by (simp add: uint32_def)
  then show ?thesis
    by (simp add: encode_def pack_IIII_raises)
qed


lemma responses_single:
  assumes "written (data_received data s) = written s @ [bs]"
  shows "responses data s = [bs]"
  using assms by (simp add: responses_def)

lemma receive_all_closed: "closed s \<Longrightarrow> receive_all later s = s"
  by (cases later) simp_all


section \<open>The claims\<close>

text \<open>
  C1 (as amended). For every PDU whose command id, command status and sequence number
  are 32-bit unsigned values: when the body has fewer than \<open>4294967280 = 2^32 - 16\<close>
  bytes, so that the length \<open>16 + len(body)\<close> fits the 32-bit length field,
  \<^verbatim>\<open>encode\<close> returns bytes that \<^verbatim>\<open>parse_pdu\<close> decodes to the same PDU
  (same command id, status, sequence number and body); with a longer body
  \<^verbatim>\<open>encode\<close> raises \<^verbatim>\<open>struct.error\<close> and produces no bytes, so there is
  nothing to decode.
\<close>

theorem encode_parse_roundtrip:
  assumes "uint32 (command_id p)" "uint32 (command_status p)" "uint32 (sequence_number p)"
  shows "if length (body p) < 4294967280
         then \<exists>bs. encode p = Inr bs \<and> parse_pdu bs = Inr p
         else encode p = Inl StructError"
proof (cases "length (body p) < 4294967280")
  case True
  then have "uint32 (16 + int (length (body p)))"
    by (simp add: uint32_def)
  with assms have "\<exists>bs. encode p = Inr bs \<and> parse_pdu bs = Inr p"
    by (rule parse_pdu_encode)
  with True show ?thesis
    by simp
next
  case False
  then show ?thesis
    by (simp add: encode_raises)
qed

theorem encode_parse_roundtrip_witness:
  "uint32 4 \<and> uint32 0 \<and> uint32 7 \<and> length [1, 2, 3 :: byte] < 4294967280 \<and>
   encode \<lparr>command_id = 4, command_status = 0, sequence_number = 7, body = [1, 2, 3]\<rparr> =
     Inr [0, 0, 0, 19, 0, 0, 0, 4, 0, 0, 0, 0, 0, 0, 0, 7, 1, 2, 3] \<and>
   parse_pdu [0, 0, 0, 19, 0, 0, 0, 4, 0, 0, 0, 0, 0, 0, 0, 7, 1, 2, 3] =
     Inr \<lparr>command_id = 4, command_status = 0, sequence_number = 7, body = [1, 2, 3]\<rparr>"
proof -
  let ?p = "\<lparr>command_id = 4, command_status = 0, sequence_number = 7, body = [1, 2, 3 :: byte]\<rparr>"
  have h: "uint32 (command_id ?p)" "uint32 (command_status ?p)" "uint32 (sequence_number ?p)"
    by (simp_all add: uint32_def)
  have e: "encode ?p = Inr [0, 0, 0, 19, 0, 0, 0, 4, 0, 0, 0, 0, 0, 0, 0, 7, 1, 2, 3]"
    by (simp add: codec_defs)
  have "\<exists>bs. encode ?p = Inr bs \<and> parse_pdu bs = Inr ?p"
    using encode_parse_roundtrip [OF h] by simp
  with e h show ?thesis
    by auto
qed

text \<open>
  The round trip does not hold for an arbitrary body: with three fields that are 32-bit
  values and a body of \<open>2^32 - 16\<close> bytes, \<^verbatim>\<open>encode\<close> raises
  \<^verbatim>\<open>struct.error\<close>.
\<close>

theorem encode_parse_roundtrip_counterexample:
  "uint32 0 \<and>
   encode \<lparr>command_id = 0, command_status = 0, sequence_number = 0,
           body = replicate 4294967280 0\<rparr> = Inl StructError \<and>
   (case encode \<lparr>command_id = 0, command_status = 0, sequence_number = 0,
                 body = replicate 4294967280 0\<rparr> of
      Inl e \<Rightarrow> Inl e | Inr bs \<Rightarrow> parse_pdu bs) \<noteq>
     Inr \<lparr>command_id = 0, command_status = 0, sequence_number = 0,
          body = replicate 4294967280 0\<rparr>"
  by (simp add: uint32_def encode_def pack_IIII_def pack_I_def)

text \<open>
  C2. For every chunk received and every state of the protocol object, what
  \<^verbatim>\<open>data_received\<close> writes to the transport is added after what was written
  before, and every response written (a bind response, \<^verbatim>\<open>submit_sm_resp\<close>,
  \<^verbatim>\<open>unbind_resp\<close> or a \<^verbatim>\<open>generic_nack\<close>, on every path) decodes to
  a PDU whose sequence number is that of the request decoded from the chunk. (When the
  chunk does not decode, nothing is written.)
\<close>

theorem responses_echo_sequence_number:
  "written (data_received data s) = written s @ responses data s \<and>
   (\<forall>w \<in> set (responses data s). \<exists>req resp.
      parse_pdu data = Inr req \<and> parse_pdu w = Inr resp \<and>
      sequence_number resp = sequence_number req)"
proof (cases "parse_pdu data")
  case (Inl e)
  then have "data_received data s = s\<lparr>transport := transport s @ [Close]\<rparr>"
    by (simp add: data_received_def transport_close_def)
  then show ?thesis
    by (simp add: responses_def written_close)
next
  case (Inr p)
  from data_received_one_response [OF this, of s]
  obtain r bs where "parse_pdu bs = Inr r" "sequence_number r = sequence_number p"
    "written (data_received data s) = written s @ [bs]"
    by blast
  with Inr show ?thesis
    by (simp add: responses_def)
qed

theorem responses_echo_sequence_number_witness:
  "responses [0, 0, 0, 16, 0, 0, 0, 4, 0, 0, 0, 0, 0, 0, 0, 7] connection_made =
     [[0, 0, 0, 16, 128, 0, 0, 0, 0, 0, 0, 11, 0, 0, 0, 7]] \<and>
   (\<exists>req resp.
      parse_pdu [0, 0, 0, 16, 0, 0, 0, 4, 0, 0, 0, 0, 0, 0, 0, 7] = Inr req \<and>
      parse_pdu [0, 0, 0, 16, 128, 0, 0, 0, 0, 0, 0, 11, 0, 0, 0, 7] = Inr resp \<and>
      sequence_number resp = sequence_number req)"
proof -
  let ?data = "[0, 0, 0, 16, 0, 0, 0, 4, 0, 0, 0, 0, 0, 0, 0, 7 :: byte]"
  have r: "responses ?data connection_made = [[0, 0, 0, 16, 128, 0, 0, 0, 0, 0, 0, 11, 0, 0, 0, 7]]"
    by (simp add: responses_def codec_defs handler_defs command_defs connection_made_def)
  show ?thesis
    using responses_echo_sequence_number [of ?data connection_made] unfolding r by simp
qed

text \<open>
  C3. On a protocol object that is not bound (no bind has succeeded on the session), a
  chunk that decodes to a \<^verbatim>\<open>submit_sm\<close> PDU makes \<^verbatim>\<open>data_received\<close> write
  exactly one response, the \<^verbatim>\<open>generic_nack\<close> with command status
  \<open>0x0000000B\<close> (ESME_RINVBNDSTS) and the request's sequence number, and change
  nothing else: the bound flag, the other attributes and the open transport stay as
  they were.
\<close>

theorem submit_sm_before_bind:
  assumes "\<not> bound s" "parse_pdu data = Inr p" "command_id p = submit_sm"
  shows "\<exists>bs. encode \<lparr>command_id = generic_nack, command_status = 0x0000000B,
                       sequence_number = sequence_number p, body = []\<rparr> = Inr bs \<and>
              data_received data s = s\<lparr>transport := transport s @ [Write bs]\<rparr>"
proof -
  have "uint32 (sequence_number p)"
    using parse_pdu_fields [OF assms(2)] by simp
  from send_generic_nack_response [OF this uint32_commands(9), of s]
  show ?thesis
    using assms by (auto simp: data_received_def dispatch_submit_sm handle_submit_sm_def)
qed

theorem submit_sm_before_bind_witness:
  "\<not> bound connection_made \<and>
   parse_pdu [0, 0, 0, 16, 0, 0, 0, 4, 0, 0, 0, 0, 0, 0, 0, 7] =
     Inr \<lparr>command_id = 4, command_status = 0, sequence_number = 7, body = []\<rparr> \<and>
   submit_sm = 4 \<and>
   data_received [0, 0, 0, 16, 0, 0, 0, 4, 0, 0, 0, 0, 0, 0, 0, 7] connection_made =
     connection_made\<lparr>transport := [Write [0, 0, 0, 16, 128, 0, 0, 0, 0, 0, 0, 11, 0, 0, 0, 7]]\<rparr>"
proof -
  let ?data = "[0, 0, 0, 16, 0, 0, 0, 4, 0, 0, 0, 0, 0, 0, 0, 7 :: byte]"
  let ?p = "\<lparr>command_id = 4, command_status = 0, sequence_number = 7, body = []\<rparr>"
  have h1: "\<not> bound connection_made"
    by (simp add: connection_made_def)
  have h2: "parse_pdu ?data = Inr ?p"
    by (simp add: codec_defs)
  have h3: "command_id ?p = submit_sm"
    by (simp add: submit_sm_def)
  have e: "encode \<lparr>command_id = generic_nack, command_status = 0x0000000B,
                  sequence_number = sequence_number ?p, body = []\<rparr> =
             Inr [0, 0, 0, 16, 128, 0, 0, 0, 0, 0, 0, 11, 0, 0, 0, 7]"
    by (simp add: codec_defs generic_nack_def)
  show ?thesis
    using submit_sm_before_bind [OF h1 h2 h3] h1 h2 h3 unfolding e
    by (simp add: connection_made_def)
qed

text \<open>
  C7 (as amended). The protocol object has no bound role: \<^verbatim>\<open>handle_bind\<close> never
  reads its argument \<^verbatim>\<open>is_transceiver\<close>, and being bound is the one flag
  \<open>bound\<close>. On a protocol object that is not bound, a chunk that decodes to a
  \<^verbatim>\<open>bind_transceiver\<close> PDU accepted by \<^verbatim>\<open>authenticate\<close> makes
  \<^verbatim>\<open>data_received\<close> set that flag and write exactly one response: the
  \<^verbatim>\<open>bind_transceiver_resp\<close> with command status 0, the request's sequence number
  and the body \<^verbatim>\<open>b'smppserver\x00'\<close>, the server's system id as a null-terminated
  string. Apart from the response written, the object is then what an accepted
  \<^verbatim>\<open>bind_receiver\<close> or \<^verbatim>\<open>bind_transmitter\<close> would have left.
\<close>

theorem bind_transceiver_accepted:
  assumes "\<not> bound s" "parse_pdu data = Inr p" "command_id p = bind_transceiver"
    and "authenticate p"
  shows "(\<exists>bs. encode \<lparr>command_id = bind_transceiver_resp, command_status = 0,
                        sequence_number = sequence_number p,
                        body = bytes_of ''smppserver'' @ [0]\<rparr> = Inr bs \<and>
               data_received data s =
                 s\<lparr>bound := True, transport := transport s @ [Write bs]\<rparr>) \<and>
         handle_bind p True s = handle_bind p False s \<and>
         (parse_pdu data' = Inr p' \<and> command_id p' \<in> {bind_receiver, bind_transmitter} \<and>
          authenticate p' \<longrightarrow>
            (data_received data' s)\<lparr>transport := transport s\<rparr> =
            (data_received data s)\<lparr>transport := transport s\<rparr>)"
proof -
  have seq: "uint32 (sequence_number p)"
    using parse_pdu_fields [OF assms(2)] by simp
  have bind: "command_id p \<in> {bind_receiver, bind_transmitter, bind_transceiver}"
    using assms(3) by simp
  have rid: "getitem [(bind_receiver, bind_receiver_resp),
        (bind_transmitter, bind_transmitter_resp),
        (bind_transceiver, bind_transceiver_resp)] (command_id p) = Inr bind_transceiver_resp"
    using assms(3) by (simp add: getitem_def command_defs)
  from handle_bind_response [OF seq rid, of "command_id p = bind_transceiver" s]
  have first: "\<exists>bs. encode \<lparr>command_id = bind_transceiver_resp, command_status = 0,
                        sequence_number = sequence_number p,
                        body = bytes_of ''smppserver'' @ [0]\<rparr> = Inr bs \<and>
               data_received data s =
                 s\<lparr>bound := True, transport := transport s @ [Write bs]\<rparr>"
    using assms(2) by (auto simp: data_received_def dispatch_bind [OF bind])
  have second: "handle_bind p True s = handle_bind p False s"
    by (simp add: handle_bind_def)
  have third: "(data_received data' s)\<lparr>transport := transport s\<rparr> =
      (data_received data s)\<lparr>transport := transport s\<rparr>"
    if other: "parse_pdu data' = Inr p'" "command_id p' \<in> {bind_receiver, bind_transmitter}"
  proof -
    have seq': "uint32 (sequence_number p')"
      using parse_pdu_fields [OF other(1)] by simp
    have bind': "command_id p' \<in> {bind_receiver, bind_transmitter, bind_transceiver}"
      using other(2) by auto
    from handle_bind_response [OF seq' resp_command_id_bind [OF bind'],
        of "command_id p' = bind_transceiver" s]
    obtain bs' where "data_received data' s =
        s\<lparr>bound := True, transport := transport s @ [Write bs']\<rparr>"
      using other(1) by (auto simp: data_received_def dispatch_bind [OF bind'])
    moreover obtain bs where "data_received data s =
        s\<lparr>bound := True, transport := transport s @ [Write bs]\<rparr>"
      using first by blast
    ultimately show ?thesis
      by simp
  qed
  from first second third show ?thesis
    by blast
qed

theorem bind_transceiver_accepted_witness:
  "\<not> bound connection_made \<and>
   parse_pdu [0, 0, 0, 16, 0, 0, 0, 9, 0, 0, 0, 0, 0, 0, 0, 1] =
     Inr \<lparr>command_id = 9, command_status = 0, sequence_number = 1, body = []\<rparr> \<and>
   bind_transceiver = 9 \<and>
   authenticate \<lparr>command_id = 9, command_status = 0, sequence_number = 1, body = []\<rparr> \<and>
   data_received [0, 0, 0, 16, 0, 0, 0, 9, 0, 0, 0, 0, 0, 0, 0, 1] connection_made =
     connection_made\<lparr>bound := True,
       transport := [Write [0, 0, 0, 27, 128, 0, 0, 9, 0, 0, 0, 0, 0, 0, 0, 1,
                            115, 109, 112, 112, 115, 101, 114, 118, 101, 114, 0]]\<rparr> \<and>
   parse_pdu [0, 0, 0, 16, 0, 0, 0, 1, 0, 0, 0, 0, 0, 0, 0, 1] =
     Inr \<lparr>command_id = 1, command_status = 0, sequence_number = 1, body = []\<rparr> \<and>
   1 \<in> {bind_receiver, bind_transmitter} \<and>
   authenticate \<lparr>command_id = 1, command_status = 0, sequence_number = 1, body = []\<rparr> \<and>
   (data_received [0, 0, 0, 16, 0, 0, 0, 1, 0, 0, 0, 0, 0, 0, 0, 1] connection_made)
       \<lparr>transport := []\<rparr> =
     connection_made\<lparr>bound := True\<rparr>"
proof -
  let ?data = "[0, 0, 0, 16, 0, 0, 0, 9, 0, 0, 0, 0, 0, 0, 0, 1 :: byte]"
  let ?p = "\<lparr>command_id = 9, command_status = 0, sequence_number = 1, body = []\<rparr>"
  let ?data' = "[0, 0, 0, 16, 0, 0, 0, 1, 0, 0, 0, 0, 0, 0, 0, 1 :: byte]"
  let ?p' = "\<lparr>command_id = 1, command_status = 0, sequence_number = 1, body = []\<rparr>"
  have h1: "\<not> bound connection_made"
    by (simp add: connection_made_def)
  have h2: "parse_pdu ?data = Inr ?p"
    by (simp add: codec_defs)
  have h3: "command_id ?p = bind_transceiver"
    by (simp add: bind_transceiver_def)
  have h4: "authenticate ?p"
    by (simp add: authenticate_def)
  have h5: "parse_pdu ?data' = Inr ?p'"
    by (simp add: codec_defs)
  have h6: "command_id ?p' \<in> {bind_receiver, bind_transmitter}"
    by (simp add: command_defs)
  have h6': "1 \<in> {bind_receiver, bind_transmitter}"
    using h6 by simp
  have h7: "authenticate ?p'"
    by (simp add: authenticate_def)
  have e: "encode \<lparr>command_id = bind_transceiver_resp, command_status = 0,
                  sequence_number = sequence_number ?p,
                  body = bytes_of ''smppserver'' @ [0]\<rparr> =
             Inr [0, 0, 0, 27, 128, 0, 0, 9, 0, 0, 0, 0, 0, 0, 0, 1,
                  115, 109, 112, 112, 115, 101, 114, 118, 101, 114, 0]"
    by (simp add: codec_defs bind_transceiver_resp_def bytes_of_def)
  have t: "transport connection_made = []"
    by (simp add: connection_made_def)
  note inst = bind_transceiver_accepted [OF h1 h2 h3 h4, of ?data' ?p']
  from inst have "\<exists>bs. encode \<lparr>command_id = bind_transceiver_resp, command_status = 0,
                        sequence_number = sequence_number ?p,
                        body = bytes_of ''smppserver'' @ [0]\<rparr> = Inr bs \<and>
               data_received ?data connection_made =
                 connection_made\<lparr>bound := True,
                   transport := transport connection_made @ [Write bs]\<rparr>"
    by (rule conjunct1)
  then have r: "data_received ?data connection_made =
      connection_made\<lparr>bound := True,
        transport := [Write [0, 0, 0, 27, 128, 0, 0, 9, 0, 0, 0, 0, 0, 0, 0, 1,
                             115, 109, 112, 112, 115, 101, 114, 118, 101, 114, 0]]\<rparr>"
    unfolding e t by simp
  from inst h5 h6 h7 have "(data_received ?data' connection_made)
        \<lparr>transport := transport connection_made\<rparr> =
      (data_received ?data connection_made)\<lparr>transport := transport connection_made\<rparr>"
    by blast
  then have r': "(data_received ?data' connection_made)\<lparr>transport := []\<rparr> =
      connection_made\<lparr>bound := True\<rparr>"
    unfolding r t by (simp add: connection_made_def)
  show ?thesis
    using h1 h2 h3 h4 h5 h6' h7 r r' by simp
qed

text \<open>
  There is no bound transceiver state to reach: on a fresh connection the object after a
  \<^verbatim>\<open>bind_transceiver\<close> and the object after a \<^verbatim>\<open>bind_receiver\<close> are, the
  response written apart, the same \<open>bound = True\<close>, and \<^verbatim>\<open>handle_bind\<close>
  does the same whatever \<^verbatim>\<open>is_transceiver\<close> is.
\<close>

theorem bind_transceiver_accepted_counterexample:
  "(data_received [0, 0, 0, 16, 0, 0, 0, 9, 0, 0, 0, 0, 0, 0, 0, 1] connection_made)
       \<lparr>transport := []\<rparr> =
     connection_made\<lparr>bound := True\<rparr> \<and>
   (data_received [0, 0, 0, 16, 0, 0, 0, 1, 0, 0, 0, 0, 0, 0, 0, 1] connection_made)
       \<lparr>transport := []\<rparr> =
     connection_made\<lparr>bound := True\<rparr> \<and>
   handle_bind \<lparr>command_id = 9, command_status = 0, sequence_number = 1, body = []\<rparr>
       True connection_made =
     handle_bind \<lparr>command_id = 9, command_status = 0, sequence_number = 1, body = []\<rparr>
       False connection_made"
  by (simp add: codec_defs handler_defs command_defs connection_made_def)

text \<open>
  C8. On a bound protocol object, a chunk that decodes to an \<^verbatim>\<open>unbind\<close> PDU makes
  \<^verbatim>\<open>data_received\<close> clear the bound flag and make exactly two calls on the
  transport, in this order: it writes one response, the \<^verbatim>\<open>unbind_resp\<close> with
  command status 0 and the request's sequence number, and after that it closes the
  transport. Whatever chunks arrive later on that connection, none is handed to
  \<^verbatim>\<open>data_received\<close>: the object, and with it what has been written, stays as the
  unbind left it.
\<close>

theorem unbind_closes:
  assumes "bound s" "parse_pdu data = Inr p" "command_id p = unbind"
  shows "\<exists>bs. encode \<lparr>command_id = unbind_resp, command_status = 0,
                       sequence_number = sequence_number p, body = []\<rparr> = Inr bs \<and>
              data_received data s =
                s\<lparr>bound := False, transport := transport s @ [Write bs, Close]\<rparr> \<and>
              receive_all later (data_received data s) = data_received data s \<and>
              (\<not> closed s \<longrightarrow>
                 receive_all (data # later) s =
                   s\<lparr>bound := False, transport := transport s @ [Write bs, Close]\<rparr>)"
proof -
  have "uint32 (sequence_number p)"
    using parse_pdu_fields [OF assms(2)] by simp
  from handle_unbind_response [OF this, of s]
  obtain bs where bs: "encode \<lparr>command_id = unbind_resp, command_status = 0,
                       sequence_number = sequence_number p, body = []\<rparr> = Inr bs"
    "handle_unbind p s =
       (None, s\<lparr>bound := False, transport := transport s @ [Write bs, Close]\<rparr>)"
    by blast
  have r: "data_received data s =
      s\<lparr>bound := False, transport := transport s @ [Write bs, Close]\<rparr>"
    using assms(2) bs(2) by (simp add: data_received_def dispatch_unbind [OF assms(3)])
  then have "closed (data_received data s)"
    by (simp add: closed_def)
  then have stay: "receive_all later (data_received data s) = data_received data s"
    by (rule receive_all_closed)
  then have "\<not> closed s \<longrightarrow>
      receive_all (data # later) s =
        s\<lparr>bound := False, transport := transport s @ [Write bs, Close]\<rparr>"
    using r by simp
  with bs(1) r stay show ?thesis
    by blast
qed

theorem unbind_closes_witness:
  "bound (connection_made\<lparr>bound := True\<rparr>) \<and>
   parse_pdu [0, 0, 0, 16, 0, 0, 0, 6, 0, 0, 0, 0, 0, 0, 0, 3] =
     Inr \<lparr>command_id = 6, command_status = 0, sequence_number = 3, body = []\<rparr> \<and>
   unbind = 6 \<and>
   \<not> closed (connection_made\<lparr>bound := True\<rparr>) \<and>
   data_received [0, 0, 0, 16, 0, 0, 0, 6, 0, 0, 0, 0, 0, 0, 0, 3]
       (connection_made\<lparr>bound := True\<rparr>) =
     connection_made
       \<lparr>transport := [Write [0, 0, 0, 16, 128, 0, 0, 6, 0, 0, 0, 0, 0, 0, 0, 3], Close]\<rparr> \<and>
   receive_all [[0, 0, 0, 16, 0, 0, 0, 6, 0, 0, 0, 0, 0, 0, 0, 3],
                [0, 0, 0, 16, 0, 0, 0, 4, 0, 0, 0, 0, 0, 0, 0, 4]]
       (connection_made\<lparr>bound := True\<rparr>) =
     connection_made
       \<lparr>transport := [Write [0, 0, 0, 16, 128, 0, 0, 6, 0, 0, 0, 0, 0, 0, 0, 3], Close]\<rparr>"
proof -
  let ?data = "[0, 0, 0, 16, 0, 0, 0, 6, 0, 0, 0, 0, 0, 0, 0, 3 :: byte]"
  let ?p = "\<lparr>command_id = 6, command_status = 0, sequence_number = 3, body = []\<rparr>"
  let ?s = "connection_made\<lparr>bound := True\<rparr>"
  have h1: "bound ?s"
    by simp
  have h2: "parse_pdu ?data = Inr ?p"
    by (simp add: codec_defs)
  have h3: "command_id ?p = unbind"
    by (simp add: unbind_def)
  have h4: "\<not> closed ?s"
    by (simp add: closed_def connection_made_def)
  have e: "encode \<lparr>command_id = unbind_resp, command_status = 0,
                  sequence_number = sequence_number ?p, body = []\<rparr> =
             Inr [0, 0, 0, 16, 128, 0, 0, 6, 0, 0, 0, 0, 0, 0, 0, 3]"
    by (simp add: codec_defs unbind_resp_def)
  from unbind_closes [OF h1 h2 h3, of "[[0, 0, 0, 16, 0, 0, 0, 4, 0, 0, 0, 0, 0, 0, 0, 4]]"]
  obtain bs where b:
    "encode \<lparr>command_id = unbind_resp, command_status = 0,
            sequence_number = sequence_number ?p, body = []\<rparr> = Inr bs"
    "data_received ?data ?s =
       ?s\<lparr>bound := False, transport := transport ?s @ [Write bs, Close]\<rparr>"
    "\<not> closed ?s \<longrightarrow>
       receive_all [?data, [0, 0, 0, 16, 0, 0, 0, 4, 0, 0, 0, 0, 0, 0, 0, 4]] ?s =
         ?s\<lparr>bound := False, transport := transport ?s @ [Write bs, Close]\<rparr>"
    by blast
  have bs: "bs = [0, 0, 0, 16, 128, 0, 0, 6, 0, 0, 0, 0, 0, 0, 0, 3]"
    using b(1) unfolding e by simp
  have r: "data_received ?data ?s =
      connection_made
        \<lparr>transport := [Write [0, 0, 0, 16, 128, 0, 0, 6, 0, 0, 0, 0, 0, 0, 0, 3], Close]\<rparr>"
    using b(2) by (simp add: bs connection_made_def)
  have r': "receive_all [?data, [0, 0, 0, 16, 0, 0, 0, 4, 0, 0, 0, 0, 0, 0, 0, 4]] ?s =
      connection_made
        \<lparr>transport := [Write [0, 0, 0, 16, 128, 0, 0, 6, 0, 0, 0, 0, 0, 0, 0, 3], Close]\<rparr>"
    using b(3) h4 by (simp add: bs connection_made_def del: receive_all.simps)
  from h1 h2 h3 h4 r r' show ?thesis
    by (simp del: receive_all.simps)
qed

text \<open>
  C9. A chunk that decodes to a PDU whose command id is none of the five dispatched
  requests (\<^verbatim>\<open>bind_receiver\<close>, \<^verbatim>\<open>bind_transmitter\<close>,
  \<^verbatim>\<open>bind_transceiver\<close>, \<^verbatim>\<open>submit_sm\<close>, \<^verbatim>\<open>unbind\<close>) makes
  \<^verbatim>\<open>data_received\<close> write exactly one response, the \<^verbatim>\<open>generic_nack\<close> with
  command status \<open>0x00000003\<close> (ESME_RINVCMDID) and the request's sequence number,
  and change nothing else of the protocol object.
\<close>

theorem unknown_command_nack:
  assumes "parse_pdu data = Inr p"
    and "command_id p \<notin> {bind_receiver, bind_transmitter, bind_transceiver, submit_sm, unbind}"
  shows "\<exists>bs. encode \<lparr>command_id = generic_nack, command_status = 0x00000003,
                       sequence_number = sequence_number p, body = []\<rparr> = Inr bs \<and>
              data_received data s = s\<lparr>transport := transport s @ [Write bs]\<rparr>"
proof -
  have "uint32 (sequence_number p)"
    using parse_pdu_fields [OF assms(1)] by simp
  from send_generic_nack_response [OF this uint32_commands(8), of s]
  show ?thesis
    using assms(1) by (auto simp: data_received_def dispatch_other [OF assms(2)])
qed

theorem unknown_command_nack_witness:
  "parse_pdu [0, 0, 0, 16, 0, 0, 0, 21, 0, 0, 0, 0, 0, 0, 0, 5] =
     Inr \<lparr>command_id = 21, command_status = 0, sequence_number = 5, body = []\<rparr> \<and>
   21 \<notin> {bind_receiver, bind_transmitter, bind_transceiver, submit_sm, unbind} \<and>
   data_received [0, 0, 0, 16, 0, 0, 0, 21, 0, 0, 0, 0, 0, 0, 0, 5]
       (connection_made\<lparr>bound := True\<rparr>) =
     connection_made\<lparr>bound := True,
       transport := [Write [0, 0, 0, 16, 128, 0, 0, 0, 0, 0, 0, 3, 0, 0, 0, 5]]\<rparr>"
proof -
  let ?data = "[0, 0, 0, 16, 0, 0, 0, 21, 0, 0, 0, 0, 0, 0, 0, 5 :: byte]"
  let ?p = "\<lparr>command_id = 21, command_status = 0, sequence_number = 5, body = []\<rparr>"
  have h1: "parse_pdu ?data = Inr ?p"
    by (simp add: codec_defs)
  have h2: "command_id ?p \<notin> {bind_receiver, bind_transmitter, bind_transceiver, submit_sm, unbind}"
    by (simp add: command_defs)
  have e: "encode \<lparr>command_id = generic_nack, command_status = 0x00000003,
                  sequence_number = sequence_number ?p, body = []\<rparr> =
             Inr [0, 0, 0, 16, 128, 0, 0, 0, 0, 0, 0, 3, 0, 0, 0, 5]"
    by (simp add: codec_defs generic_nack_def)
  have h2': "21 \<notin> {bind_receiver, bind_transmitter, bind_transceiver, submit_sm, unbind}"
    using h2 by simp
  show ?thesis
    using unknown_command_nack [OF h1 h2, of "connection_made\<lparr>bound := True\<rparr>"] h1 h2'
    unfolding e by (simp add: connection_made_def)
qed

text \<open>
  C10. In every state of the protocol object, a chunk that decodes to a
  \<^verbatim>\<open>deliver_sm\<close> PDU, a command that the table \<^verbatim>\<open>SMPP_COMMANDS\<close> holds, is
  answered like an unknown command: exactly one \<^verbatim>\<open>generic_nack\<close> with command
  status \<open>0x00000003\<close> (ESME_RINVCMDID) and the request's sequence number is written,
  and nothing else changes, \<^verbatim>\<open>deliver_sm\<close> having no branch of its own in
  \<^verbatim>\<open>data_received\<close>.
\<close>

theorem deliver_sm_nack:
  assumes "parse_pdu data = Inr p" "command_id p = deliver_sm"
  shows "map_of SMPP_COMMANDS ''deliver_sm'' = Some (command_id p) \<and>
         (\<exists>bs. encode \<lparr>command_id = generic_nack, command_status = 0x00000003,
                        sequence_number = sequence_number p, body = []\<rparr> = Inr bs \<and>
               data_received data s = s\<lparr>transport := transport s @ [Write bs]\<rparr>)"
proof -
  have seq: "uint32 (sequence_number p)"
    using parse_pdu_fields [OF assms(1)] by simp
  have other: "command_id p \<notin> {bind_receiver, bind_transmitter, bind_transceiver, submit_sm, unbind}"
    using assms(2) by (simp add: command_defs)
  have "map_of SMPP_COMMANDS ''deliver_sm'' = Some (command_id p)"
    using assms(2) by (simp add: SMPP_COMMANDS_literals)
  moreover from send_generic_nack_response [OF seq uint32_commands(8), of s]
  have "\<exists>bs. encode \<lparr>command_id = generic_nack, command_status = 0x00000003,
                        sequence_number = sequence_number p, body = []\<rparr> = Inr bs \<and>
               data_received data s = s\<lparr>transport := transport s @ [Write bs]\<rparr>"
    using assms(1) by (auto simp: data_received_def dispatch_other [OF other])
  ultimately show ?thesis
    by blast
qed

theorem deliver_sm_nack_witness:
  "parse_pdu [0, 0, 0, 16, 0, 0, 0, 5, 0, 0, 0, 0, 0, 0, 0, 9] =
     Inr \<lparr>command_id = 5, command_status = 0, sequence_number = 9, body = []\<rparr> \<and>
   deliver_sm = 5 \<and>
   map_of SMPP_COMMANDS ''deliver_sm'' = Some 5 \<and>
   data_received [0, 0, 0, 16, 0, 0, 0, 5, 0, 0, 0, 0, 0, 0, 0, 9]
       (connection_made\<lparr>bound := True\<rparr>) =
     connection_made\<lparr>bound := True,
       transport := [Write [0, 0, 0, 16, 128, 0, 0, 0, 0, 0, 0, 3, 0, 0, 0, 9]]\<rparr>"
proof -
  let ?data = "[0, 0, 0, 16, 0, 0, 0, 5, 0, 0, 0, 0, 0, 0, 0, 9 :: byte]"
  let ?p = "\<lparr>command_id = 5, command_status = 0, sequence_number = 9, body = []\<rparr>"
  have h1: "parse_pdu ?data = Inr ?p"
    by (simp add: codec_defs)
  have h2: "command_id ?p = deliver_sm"
    by (simp add: deliver_sm_def)
  have e: "encode \<lparr>command_id = generic_nack, command_status = 0x00000003,
                  sequence_number = sequence_number ?p, body = []\<rparr> =
             Inr [0, 0, 0, 16, 128, 0, 0, 0, 0, 0, 0, 3, 0, 0, 0, 9]"
    by (simp add: codec_defs generic_nack_def)
  show ?thesis
    using deliver_sm_nack [OF h1 h2, of "connection_made\<lparr>bound := True\<rparr>"] h1 h2
    unfolding e by (simp add: connection_made_def)
qed

text \<open>
  C6 (as amended). \<^verbatim>\<open>handle_bind\<close> does not look at the bound flag. On a protocol
  object that is already bound, a chunk that decodes to a \<^verbatim>\<open>bind_receiver\<close>,
  \<^verbatim>\<open>bind_transmitter\<close> or \<^verbatim>\<open>bind_transceiver\<close> PDU is accepted as on a
  fresh connection: exactly one response is written, the matching \<^verbatim>\<open>_resp\<close>
  command with command status 0, the request's sequence number and the body
  \<^verbatim>\<open>b'smppserver\x00'\<close>, and the object stays bound, nothing else of it changing.
\<close>

theorem bind_while_bound:
  assumes "bound s" "parse_pdu data = Inr p"
    and "command_id p \<in> {bind_receiver, bind_transmitter, bind_transceiver}"
  shows "\<exists>bs. encode \<lparr>command_id =
                         (if command_id p = bind_receiver then bind_receiver_resp
                          else if command_id p = bind_transmitter then bind_transmitter_resp
                          else bind_transceiver_resp),
                       command_status = 0, sequence_number = sequence_number p,
                       body = bytes_of ''smppserver'' @ [0]\<rparr> = Inr bs \<and>
              data_received data s = s\<lparr>transport := transport s @ [Write bs]\<rparr>"
proof -
  have seq: "uint32 (sequence_number p)"
    using parse_pdu_fields [OF assms(2)] by simp
  have same: "s\<lparr>bound := True\<rparr> = s"
    using assms(1) by simp
  from handle_bind_response [OF seq resp_command_id_bind [OF assms(3)],
      of "command_id p = bind_transceiver" s]
  show ?thesis
    using assms(2) same
    by (auto simp: data_received_def dispatch_bind [OF assms(3)])
qed

theorem bind_while_bound_witness:
  "bound (connection_made\<lparr>bound := True\<rparr>) \<and>
   parse_pdu [0, 0, 0, 16, 0, 0, 0, 1, 0, 0, 0, 0, 0, 0, 0, 2] =
     Inr \<lparr>command_id = 1, command_status = 0, sequence_number = 2, body = []\<rparr> \<and>
   1 \<in> {bind_receiver, bind_transmitter, bind_transceiver} \<and>
   data_received [0, 0, 0, 16, 0, 0, 0, 1, 0, 0, 0, 0, 0, 0, 0, 2]
       (connection_made\<lparr>bound := True\<rparr>) =
     connection_made\<lparr>bound := True,
       transport := [Write [0, 0, 0, 27, 128, 0, 0, 1, 0, 0, 0, 0, 0, 0, 0, 2,
                    115, 109, 112, 112, 115, 101, 114, 118, 101, 114, 0]]\<rparr>"
proof -
  let ?data = "[0, 0, 0, 16, 0, 0, 0, 1, 0, 0, 0, 0, 0, 0, 0, 2 :: byte]"
  let ?p = "\<lparr>command_id = 1, command_status = 0, sequence_number = 2, body = []\<rparr>"
  let ?s = "connection_made\<lparr>bound := True\<rparr>"
  have h1: "bound ?s"
    by simp
  have h2: "parse_pdu ?data = Inr ?p"
    by (simp add: codec_defs)
  have h3: "command_id ?p \<in> {bind_receiver, bind_transmitter, bind_transceiver}"
    by (simp add: command_defs)
  have h3': "1 \<in> {bind_receiver, bind_transmitter, bind_transceiver}"
    using h3 by simp
  have e: "encode \<lparr>command_id =
                    (if command_id ?p = bind_receiver then bind_receiver_resp
                     else if command_id ?p = bind_transmitter then bind_transmitter_resp
                     else bind_transceiver_resp),
                  command_status = 0, sequence_number = sequence_number ?p,
                  body = bytes_of ''smppserver'' @ [0]\<rparr> =
             Inr [0, 0, 0, 27, 128, 0, 0, 1, 0, 0, 0, 0, 0, 0, 0, 2,
                  115, 109, 112, 112, 115, 101, 114, 118, 101, 114, 0]"
    by (simp add: codec_defs command_defs bytes_of_def)
  show ?thesis
    using bind_while_bound [OF h1 h2 h3] h1 h2 h3' unfolding e
    by (simp add: connection_made_def)
qed

text \<open>
  A second bind is not rejected: after a \<^verbatim>\<open>bind_transmitter\<close> (sequence number 1)
  on a fresh connection the object is bound, and a \<^verbatim>\<open>bind_transceiver\<close> (sequence
  number 2) received then is answered by a \<^verbatim>\<open>bind_transceiver_resp\<close> with command
  status 0.
\<close>

theorem bind_while_bound_counterexample:
  "bound (data_received [0, 0, 0, 16, 0, 0, 0, 2, 0, 0, 0, 0, 0, 0, 0, 1] connection_made) \<and>
   parse_pdu [0, 0, 0, 16, 0, 0, 0, 9, 0, 0, 0, 0, 0, 0, 0, 2] =
     Inr \<lparr>command_id = bind_transceiver, command_status = 0, sequence_number = 2, body = []\<rparr> \<and>
   responses [0, 0, 0, 16, 0, 0, 0, 9, 0, 0, 0, 0, 0, 0, 0, 2]
       (data_received [0, 0, 0, 16, 0, 0, 0, 2, 0, 0, 0, 0, 0, 0, 0, 1] connection_made) =
     [[0, 0, 0, 27, 128, 0, 0, 9, 0, 0, 0, 0, 0, 0, 0, 2,
       115, 109, 112, 112, 115, 101, 114, 118, 101, 114, 0]] \<and>
   parse_pdu [0, 0, 0, 27, 128, 0, 0, 9, 0, 0, 0, 0, 0, 0, 0, 2,
              115, 109, 112, 112, 115, 101, 114, 118, 101, 114, 0] =
     Inr \<lparr>command_id = bind_transceiver_resp, command_status = 0, sequence_number = 2,
          body = bytes_of ''smppserver'' @ [0]\<rparr>"
proof -
  have first: "data_received [0, 0, 0, 16, 0, 0, 0, 2, 0, 0, 0, 0, 0, 0, 0, 1] connection_made =
      connection_made\<lparr>bound := True,
        transport := [Write [0, 0, 0, 27, 128, 0, 0, 2, 0, 0, 0, 0, 0, 0, 0, 1,
                     115, 109, 112, 112, 115, 101, 114, 118, 101, 114, 0]]\<rparr>"
    by (simp add: codec_defs handler_defs command_defs connection_made_def)
  show ?thesis
    unfolding first
    by (simp add: responses_def codec_defs handler_defs command_defs connection_made_def)
qed

text \<open>
  C4 (as amended). \<^verbatim>\<open>parse_pdu\<close> checks the number of bytes received, not the
  length field. For a chunk whose length field (its first four bytes, big-endian) is
  less than 16: when fewer than 16 bytes were received, decoding raises
  \<^verbatim>\<open>ValueError("PDU too short")\<close> and \<^verbatim>\<open>data_received\<close> closes the transport
  without writing a response or dispatching a PDU; when 16 bytes or more were received,
  the chunk decodes to a PDU with the header's command id, status and sequence number
  and an empty body, which is dispatched and answered by exactly one response.
\<close>

theorem length_field_below_16:
  assumes "4 \<le> length data" "unpack_I_at data 0 < 16"
  shows "if length data < 16
         then parse_pdu data = Inl (ValueError ''PDU too short'') \<and>
              data_received data s = s\<lparr>transport := transport s @ [Close]\<rparr>
         else parse_pdu data =
                Inr \<lparr>command_id = unpack_I_at data 4, command_status = unpack_I_at data 8,
                     sequence_number = unpack_I_at data 12, body = []\<rparr> \<and>
              (\<exists>bs. responses data s = [bs])"
proof (cases "length data < 16")
  case True
  then show ?thesis
    by (simp add: parse_pdu_short data_received_short)
next
  case False
  then have long: "16 \<le> length data"
    by simp
  have "drop 16 (take (nat (unpack_I_at data 0)) data) = []"
    using assms(2) by simp
  then have p: "parse_pdu data =
      Inr \<lparr>command_id = unpack_I_at data 4, command_status = unpack_I_at data 8,
           sequence_number = unpack_I_at data 12, body = []\<rparr>"
    using parse_pdu_long [OF long] by simp
  from data_received_one_response [OF p, of s]
  have "\<exists>bs. responses data s = [bs]"
    using responses_single by blast
  with p False show ?thesis
    by simp
qed

theorem length_field_below_16_witness:
  "4 \<le> length [0, 0, 0, 8, 0, 0, 0, 4, 0, 0, 0, 0, 0, 0, 0, 7 :: byte] \<and>
   unpack_I_at [0, 0, 0, 8, 0, 0, 0, 4, 0, 0, 0, 0, 0, 0, 0, 7] 0 < 16 \<and>
   \<not> length [0, 0, 0, 8, 0, 0, 0, 4, 0, 0, 0, 0, 0, 0, 0, 7 :: byte] < 16 \<and>
   parse_pdu [0, 0, 0, 8, 0, 0, 0, 4, 0, 0, 0, 0, 0, 0, 0, 7] =
     Inr \<lparr>command_id = 4, command_status = 0, sequence_number = 7, body = []\<rparr> \<and>
   responses [0, 0, 0, 8, 0, 0, 0, 4, 0, 0, 0, 0, 0, 0, 0, 7] connection_made =
     [[0, 0, 0, 16, 128, 0, 0, 0, 0, 0, 0, 11, 0, 0, 0, 7]]"
proof -
  let ?data = "[0, 0, 0, 8, 0, 0, 0, 4, 0, 0, 0, 0, 0, 0, 0, 7 :: byte]"
  have h1: "4 \<le> length ?data"
    by simp
  have h2: "unpack_I_at ?data 0 < 16"
    by (simp add: unpack_I_at_def)
  have r: "data_received ?data connection_made =
      connection_made\<lparr>transport := [Write [0, 0, 0, 16, 128, 0, 0, 0, 0, 0, 0, 11, 0, 0, 0, 7]]\<rparr>"
    by (simp add: codec_defs handler_defs command_defs connection_made_def)
  have "\<exists>bs. responses ?data connection_made = [bs]"
    using length_field_below_16 [OF h1 h2, of connection_made] by simp
  moreover have "responses ?data connection_made =
      [[0, 0, 0, 16, 128, 0, 0, 0, 0, 0, 0, 11, 0, 0, 0, 7]]"
    unfolding responses_def r by (simp add: connection_made_def written_def)
  moreover have "parse_pdu ?data =
      Inr \<lparr>command_id = 4, command_status = 0, sequence_number = 7, body = []\<rparr>"
    using length_field_below_16 [OF h1 h2, of connection_made] by (simp add: unpack_I_at_def)
  ultimately show ?thesis
    using h1 h2 by simp
qed

text \<open>
  A frame of 16 bytes whose length field is 0 is not rejected: it decodes to a
  \<^verbatim>\<open>submit_sm\<close> PDU, which is dispatched (here on a fresh connection, answered by
  the \<^verbatim>\<open>generic_nack\<close> of C3), and the transport is not closed.
\<close>

theorem length_field_below_16_counterexample:
  "unpack_I_at [0, 0, 0, 0, 0, 0, 0, 4, 0, 0, 0, 0, 0, 0, 0, 7] 0 = 0 \<and>
   parse_pdu [0, 0, 0, 0, 0, 0, 0, 4, 0, 0, 0, 0, 0, 0, 0, 7] =
     Inr \<lparr>command_id = submit_sm, command_status = 0, sequence_number = 7, body = []\<rparr> \<and>
   data_received [0, 0, 0, 0, 0, 0, 0, 4, 0, 0, 0, 0, 0, 0, 0, 7] connection_made =
     connection_made\<lparr>transport := [Write [0, 0, 0, 16, 128, 0, 0, 0, 0, 0, 0, 11, 0, 0, 0, 7]]\<rparr> \<and>
   \<not> closed (data_received [0, 0, 0, 0, 0, 0, 0, 4, 0, 0, 0, 0, 0, 0, 0, 7] connection_made)"
  by (simp add: codec_defs handler_defs command_defs connection_made_def)

text \<open>
  C5 (as amended). \<^verbatim>\<open>parse_pdu\<close> never asks for more data. For a chunk holding
  fewer bytes than its length field \<open>L\<close> declares (or fewer than 4 bytes in all): when
  fewer than 16 bytes were received, decoding raises \<^verbatim>\<open>ValueError("PDU too short")\<close>
  and \<^verbatim>\<open>data_received\<close> closes the transport, no PDU being produced or dispatched;
  when 16 bytes or more were received, the chunk decodes to a PDU whose body is all the
  bytes after the header, fewer than \<open>L - 16\<close>, and that PDU is dispatched and answered
  by exactly one response.
\<close>

theorem fewer_bytes_than_declared:
  assumes "length data < 4 \<or> int (length data) < unpack_I_at data 0"
  shows "if length data < 16
         then parse_pdu data = Inl (ValueError ''PDU too short'') \<and>
              data_received data s = s\<lparr>transport := transport s @ [Close]\<rparr>
         else parse_pdu data =
                Inr \<lparr>command_id = unpack_I_at data 4, command_status = unpack_I_at data 8,
                     sequence_number = unpack_I_at data 12, body = drop 16 data\<rparr> \<and>
              int (length (drop 16 data)) < unpack_I_at data 0 - 16 \<and>
              (\<exists>bs. responses data s = [bs])"
proof (cases "length data < 16")
  case True
  then show ?thesis
    by (simp add: parse_pdu_short data_received_short)
next
  case False
  then have long: "16 \<le> length data"
    by simp
  with assms have less: "int (length data) < unpack_I_at data 0"
    by auto
  then have "take (nat (unpack_I_at data 0)) data = data"
    by simp
  then have p: "parse_pdu data =
      Inr \<lparr>command_id = unpack_I_at data 4, command_status = unpack_I_at data 8,
           sequence_number = unpack_I_at data 12, body = drop 16 data\<rparr>"
    using parse_pdu_long [OF long] by simp
  from data_received_one_response [OF p, of s]
  have "\<exists>bs. responses data s = [bs]"
    using responses_single by blast
  moreover have "int (length (drop 16 data)) < unpack_I_at data 0 - 16"
    using less long by simp
  ultimately show ?thesis
    using p False by simp
qed

theorem fewer_bytes_than_declared_witness:
  "int (length [0, 0, 0, 20, 0, 0, 0, 4, 0, 0, 0, 0, 0, 0, 0, 7, 65, 66 :: byte]) <
     unpack_I_at [0, 0, 0, 20, 0, 0, 0, 4, 0, 0, 0, 0, 0, 0, 0, 7, 65, 66] 0 \<and>
   parse_pdu [0, 0, 0, 20, 0, 0, 0, 4, 0, 0, 0, 0, 0, 0, 0, 7, 65, 66] =
     Inr \<lparr>command_id = 4, command_status = 0, sequence_number = 7, body = [65, 66]\<rparr> \<and>
   responses [0, 0, 0, 20, 0, 0, 0, 4, 0, 0, 0, 0, 0, 0, 0, 7, 65, 66] connection_made =
     [[0, 0, 0, 16, 128, 0, 0, 0, 0, 0, 0, 11, 0, 0, 0, 7]]"
proof -
  let ?data = "[0, 0, 0, 20, 0, 0, 0, 4, 0, 0, 0, 0, 0, 0, 0, 7, 65, 66 :: byte]"
  have h: "int (length ?data) < unpack_I_at ?data 0"
    by (simp add: unpack_I_at_def)
  then have h': "length ?data < 4 \<or> int (length ?data) < unpack_I_at ?data 0"
    by (rule disjI2)
  have r: "data_received ?data connection_made =
      connection_made\<lparr>transport := [Write [0, 0, 0, 16, 128, 0, 0, 0, 0, 0, 0, 11, 0, 0, 0, 7]]\<rparr>"
    by (simp add: codec_defs handler_defs command_defs connection_made_def)
  have "responses ?data connection_made =
      [[0, 0, 0, 16, 128, 0, 0, 0, 0, 0, 0, 11, 0, 0, 0, 7]]"
    unfolding responses_def r by (simp add: connection_made_def written_def)
  moreover have "parse_pdu ?data =
      Inr \<lparr>command_id = 4, command_status = 0, sequence_number = 7, body = [65, 66]\<rparr>"
    using fewer_bytes_than_declared [OF h', of connection_made] by (simp add: unpack_I_at_def)
  ultimately show ?thesis
    using h by simp
qed

text \<open>
  A frame of 16 bytes whose length field is 20 does not wait for the 4 missing bytes: it
  decodes to a \<^verbatim>\<open>submit_sm\<close> PDU with an empty body, shorter than the
  \<open>L - 16 = 4\<close> bytes declared, and that PDU is dispatched and answered.
\<close>

theorem fewer_bytes_than_declared_counterexample:
  "int (length [0, 0, 0, 20, 0, 0, 0, 4, 0, 0, 0, 0, 0, 0, 0, 7 :: byte]) <
     unpack_I_at [0, 0, 0, 20, 0, 0, 0, 4, 0, 0, 0, 0, 0, 0, 0, 7] 0 \<and>
   unpack_I_at [0, 0, 0, 20, 0, 0, 0, 4, 0, 0, 0, 0, 0, 0, 0, 7] 0 - 16 = 4 \<and>
   parse_pdu [0, 0, 0, 20, 0, 0, 0, 4, 0, 0, 0, 0, 0, 0, 0, 7] =
     Inr \<lparr>command_id = submit_sm, command_status = 0, sequence_number = 7, body = []\<rparr> \<and>
   data_received [0, 0, 0, 20, 0, 0, 0, 4, 0, 0, 0, 0, 0, 0, 0, 7] connection_made =
     connection_made\<lparr>transport := [Write [0, 0, 0, 16, 128, 0, 0, 0, 0, 0, 0, 11, 0, 0, 0, 7]]\<rparr>"
  by (simp add: codec_defs handler_defs command_defs connection_made_def)

end
